theory Spec2Isabelle
  imports Complex_Main "HOL-Library.Sublist"
begin

section \<open>JavaScript values\<close>

text \<open>
  The route handlers receive untyped JSON (request bodies, the session cookie) and test it
  with JavaScript's truthiness and strict equality. A JavaScript number is either NaN, an
  infinity or a finite value; finite values are modelled as reals. An absent property
  (\<^verbatim>\<open>undefined\<close>) is \<open>None\<close> of an option type. Strings are lists of 8-bit characters.
\<close>

datatype number = NaN | NegInf | Fin real | PosInf

datatype jsval =
    JNull
  | JBool bool
  | JNum number
  | JStr string
  | JArr "jsval list"
  | JObj "(string \<times> jsval) list"

text \<open>What a \<^verbatim>\<open>try\<close> block of the source can catch.\<close>

datatype exn = TypeError | SyntaxError | Failure string

text \<open>\<^verbatim>\<open>!!v\<close>: only null, false, 0, NaN and the empty string are falsy.\<close>

fun truthy :: "jsval \<Rightarrow> bool" where
  "truthy JNull = False"
| "truthy (JBool b) = b"
| "truthy (JNum n) = (n \<noteq> NaN \<and> n \<noteq> Fin 0)"
| "truthy (JStr s) = (s \<noteq> [])"
| "truthy (JArr xs) = True"
| "truthy (JObj kvs) = True"


text \<open>
  \<^verbatim>\<open>a === b\<close>. Primitives compare by value, NaN differs from itself, and two
  objects or arrays that were parsed separately are never the same reference.
\<close>

fun strict_eq :: "jsval option \<Rightarrow> jsval option \<Rightarrow> bool" where
  "strict_eq None None = True"
| "strict_eq (Some JNull) (Some JNull) = True"
| "strict_eq (Some (JBool a)) (Some (JBool b)) = (a = b)"
| "strict_eq (Some (JNum a)) (Some (JNum b)) = (a = b \<and> a \<noteq> NaN)"
| "strict_eq (Some (JStr a)) (Some (JStr b)) = (a = b)"
| "strict_eq _ _ = False"

text \<open>
  Reading property \<open>k\<close> of a parsed JSON value, as in \<^verbatim>\<open>const { k } = body\<close> or
  \<^verbatim>\<open>session.id\<close>: null has no properties (a TypeError), an object yields the value of
  its last entry for \<open>k\<close>, and the keys read by this program are not properties of
  numbers, booleans, strings or arrays.
\<close>

fun prop_of :: "jsval \<Rightarrow> string \<Rightarrow> jsval option" where
  "prop_of (JObj kvs) k = map_of (rev kvs) k"
| "prop_of v k = None"

fun get_prop :: "jsval \<Rightarrow> string \<Rightarrow> exn + jsval option" where
  "get_prop JNull k = Inl TypeError"
| "get_prop v k = Inr (prop_of v k)"

text \<open>
  \<^verbatim>\<open>String.prototype.trim\<close> on the characters of the model: tab, line feed, vertical tab,
  form feed, carriage return, space and no-break space are white space.
\<close>

definition isWhiteSpace :: "char \<Rightarrow> bool" where
  "isWhiteSpace c = ((of_char c :: nat) \<in> {9, 10, 11, 12, 13, 32, 160})"

definition trim :: "string \<Rightarrow> string" where
  "trim s = rev (dropWhile isWhiteSpace (rev (dropWhile isWhiteSpace s)))"

section \<open>Signatures (lib/signature-utils)\<close>

text \<open>
  \<^verbatim>\<open>interface SignatureData { type; data; timestamp }\<close>. The sign route copies
  \<^verbatim>\<open>data\<close> from the request body unchecked, so the field holds an arbitrary value.
\<close>

record SignatureData =
  sig_type :: string
  sig_data :: jsval
  timestamp :: string

text \<open>
  \<^verbatim>\<open>validateSignature\<close>. The argument may be null (\<open>None\<close>). \<^verbatim>\<open>startsWith\<close> and
  \<^verbatim>\<open>trim\<close> exist on strings only: calling them on another truthy value throws.
\<close>

definition validateSignature :: "SignatureData option \<Rightarrow> exn + bool" where
  "validateSignature sg =
     (case sg of
        None \<Rightarrow> Inr False
      | Some s \<Rightarrow>
          if sig_type s = [] \<or> \<not> truthy (sig_data s) \<or> timestamp s = [] then Inr False
          else if sig_type s \<notin> set [''drawn'', ''typed''] then Inr False
          else if sig_type s = ''drawn'' then
            (case sig_data s of
               JStr d \<Rightarrow> Inr (prefix ''data:image/'' d)
             | _ \<Rightarrow> Inl TypeError)
          else
            (case sig_data s of
               JStr d \<Rightarrow> Inr (0 < length (trim d))
             | _ \<Rightarrow> Inl TypeError))"

text \<open>\<^verbatim>\<open>CONTRACT_STATUS\<close>: the status of a contract.\<close>

datatype status = Draft | Signed | Deleted

section \<open>Platform functions\<close>

text \<open>
  Built-ins of the JavaScript runtime that the validators call and that are not code of
  the repository: \<^verbatim>\<open>parseFloat\<close> of a string, array or object, the numeric conversion
  that \<^verbatim>\<open>isNaN\<close> and \<^verbatim>\<open><\<close> apply to one (both convert an array or object to a string
  first, which can throw), the \<^verbatim>\<open>Date\<close> constructor (milliseconds since the epoch,
  \<open>None\<close> for an invalid date) and local midnight of the current day.
\<close>

record platform =
  parseFloat_text :: "jsval \<Rightarrow> exn + number"
  toNumber_text :: "jsval \<Rightarrow> exn + number"
  Date_parse :: "string \<Rightarrow> int option"
  today_start :: int

text \<open>\<^verbatim>\<open>parseFloat(v)\<close>: the argument is converted to a string and its numeric prefix read.\<close>

fun parseFloat :: "platform \<Rightarrow> jsval option \<Rightarrow> exn + number" where
  "parseFloat env None = Inr NaN"
| "parseFloat env (Some JNull) = Inr NaN"
| "parseFloat env (Some (JBool b)) = Inr NaN"
| "parseFloat env (Some (JNum n)) = Inr n"
| "parseFloat env (Some v) = parseFloat_text env v"

text \<open>The numeric conversion behind \<^verbatim>\<open>isNaN(v)\<close>, \<^verbatim>\<open>v < 0\<close> and \<^verbatim>\<open>v <= 0\<close>.\<close>

fun toNumber :: "platform \<Rightarrow> jsval \<Rightarrow> exn + number" where
  "toNumber env JNull = Inr (Fin 0)"
| "toNumber env (JBool b) = Inr (Fin (if b then 1 else 0))"
| "toNumber env (JNum n) = Inr n"
| "toNumber env v = toNumber_text env v"

fun num_less0 :: "number \<Rightarrow> bool" where
  "num_less0 NaN = False"
| "num_less0 NegInf = True"
| "num_less0 (Fin r) = (r < 0)"
| "num_less0 PosInf = False"


text \<open>\<^verbatim>\<open>JSON.stringify\<close> writes NaN and the infinities as null.\<close>

fun stringify_number :: "jsval \<Rightarrow> jsval" where
  "stringify_number (JNum (Fin r)) = JNum (Fin r)"
| "stringify_number (JNum n) = JNull"
| "stringify_number v = v"

section \<open>Validation (lib/validation)\<close>

datatype ValidationResult = Valid | Invalid string

definition REQUIRED_FIELD :: string where
  "REQUIRED_FIELD = ''This field is required''"

definition INVALID_DATE :: string where
  "INVALID_DATE = ''Please enter a valid date''"

definition INVALID_AMOUNT :: string where
  "INVALID_AMOUNT = ''Please enter a valid amount''"

text \<open>
  \<^verbatim>\<open>validateRequired(value, fieldName)\<close>. The value comes from a request body: only a
  string has \<^verbatim>\<open>trim\<close>, anything else throws a TypeError.
\<close>

fun validateRequired :: "jsval \<Rightarrow> string \<Rightarrow> exn + ValidationResult" where
  "validateRequired (JStr v) fieldName =
     (if trim v = [] then
        Inr (Invalid (if fieldName \<noteq> [] then fieldName @ '' is required'' else REQUIRED_FIELD))
      else Inr Valid)"
| "validateRequired v fieldName = Inl TypeError"

fun validateEventDate :: "platform \<Rightarrow> jsval \<Rightarrow> exn + ValidationResult" where
  "validateEventDate env (JStr dateString) =
     (if trim dateString = [] then Inr (Invalid REQUIRED_FIELD)
      else case Date_parse env dateString of
             None \<Rightarrow> Inr (Invalid INVALID_DATE)
           | Some date \<Rightarrow>
               if date < today_start env then Inr (Invalid ''Event date cannot be in the past'')
               else Inr Valid)"
| "validateEventDate env v = Inl TypeError"

definition validateAmount :: "platform \<Rightarrow> jsval \<Rightarrow> exn + ValidationResult" where
  "validateAmount env amount =
     (case (case amount of
              JStr s \<Rightarrow> map_sum id JNum (parseFloat env (Some amount))
            | _ \<Rightarrow> Inr amount) of
        Inl e \<Rightarrow> Inl e
      | Inr numAmount \<Rightarrow>
     (case toNumber env numAmount of
        Inl e \<Rightarrow> Inl e
      | Inr n \<Rightarrow>
          if n = NaN \<or> num_less0 n then Inr (Invalid INVALID_AMOUNT)
          else if numAmount = JNum (Fin 0) then Inr (Invalid ''Amount must be greater than 0'')
          else Inr Valid))"

text \<open>
  \<^verbatim>\<open>Partial<Contract>\<close> as the routes build it: each key is either absent (\<open>None\<close>) or
  holds the value taken from the request.
\<close>

record PartialContract =
  p_clientName :: "jsval option"
  p_eventDate :: "jsval option"
  p_eventVenue :: "jsval option"
  p_servicePackage :: "jsval option"
  p_amount :: "jsval option"
  p_content :: "jsval option"
  p_status :: "status option"
  p_signature :: "SignatureData option"

record FieldErrors =
  e_clientName :: "string option"
  e_eventDate :: "string option"
  e_eventVenue :: "string option"
  e_servicePackage :: "string option"
  e_amount :: "string option"
  e_content :: "string option"

record ContractValidationResult =
  isValid :: bool
  errors :: FieldErrors

text \<open>One field of \<^verbatim>\<open>validateContractData\<close>: skipped when the key is absent.\<close>

fun check_field :: "(jsval \<Rightarrow> exn + ValidationResult) \<Rightarrow> jsval option \<Rightarrow> exn + string option" where
  "check_field f None = Inr None"
| "check_field f (Some v) =
     (case f v of
        Inl e \<Rightarrow> Inl e
      | Inr Valid \<Rightarrow> Inr None
      | Inr (Invalid m) \<Rightarrow> Inr (Some m))"

definition validateContractData :: "platform \<Rightarrow> PartialContract \<Rightarrow> exn + ContractValidationResult" where
  "validateContractData env contractData =
     (case check_field (\<lambda>v. validateRequired v ''Client name'') (p_clientName contractData) of
        Inl e \<Rightarrow> Inl e
      | Inr e1 \<Rightarrow>
     (case check_field (validateEventDate env) (p_eventDate contractData) of
        Inl e \<Rightarrow> Inl e
      | Inr e2 \<Rightarrow>
     (case check_field (\<lambda>v. validateRequired v ''Event venue'') (p_eventVenue contractData) of
        Inl e \<Rightarrow> Inl e
      | Inr e3 \<Rightarrow>
     (case check_field (\<lambda>v. validateRequired v ''Service package'') (p_servicePackage contractData) of
        Inl e \<Rightarrow> Inl e
      | Inr e4 \<Rightarrow>
     (case check_field (validateAmount env) (p_amount contractData) of
        Inl e \<Rightarrow> Inl e
      | Inr e5 \<Rightarrow>
     (case check_field (\<lambda>v. validateRequired v ''Contract content'') (p_content contractData) of
        Inl e \<Rightarrow> Inl e
      | Inr e6 \<Rightarrow>
          Inr \<lparr>isValid = (e1 = None \<and> e2 = None \<and> e3 = None \<and> e4 = None \<and> e5 = None \<and> e6 = None),
               errors = \<lparr>e_clientName = e1, e_eventDate = e2, e_eventVenue = e3,
                          e_servicePackage = e4, e_amount = e5, e_content = e6\<rparr>\<rparr>))))))"

definition validateNewContract :: "platform \<Rightarrow> PartialContract \<Rightarrow> exn + ContractValidationResult" where
  "validateNewContract env contractData = validateContractData env contractData"

section \<open>Contracts and the flat-file store (lib/data-service)\<close>

text \<open>
  A record of \<^verbatim>\<open>contracts.json\<close>. The text fields and the vendor id hold what the routes
  wrote there (a value of the request or of the session cookie, absent when it was
  undefined); the amount is always produced by \<^verbatim>\<open>parseFloat\<close> and written by
  \<^verbatim>\<open>JSON.stringify\<close>.
\<close>

record Contract =
  contractId :: string
  vendorId :: "jsval option"
  clientName :: "jsval option"
  eventDate :: "jsval option"
  eventVenue :: "jsval option"
  servicePackage :: "jsval option"
  amount :: "jsval option"
  content :: "jsval option"
  status :: status
  signature :: "SignatureData option"
  createdAt :: string
  updatedAt :: string

text \<open>\<^verbatim>\<open>Omit<Contract, 'id' | 'createdAt' | 'updatedAt'>\<close>, the argument of createContract.\<close>

record NewContract =
  n_vendorId :: "jsval option"
  n_clientName :: "jsval option"
  n_eventDate :: "jsval option"
  n_eventVenue :: "jsval option"
  n_servicePackage :: "jsval option"
  n_amount :: number
  n_content :: "jsval option"
  n_status :: status

text \<open>\<^verbatim>\<open>Array.prototype.findIndex\<close>; \<open>None\<close> stands for -1.\<close>

fun findIndex :: "('a \<Rightarrow> bool) \<Rightarrow> 'a list \<Rightarrow> nat option" where
  "findIndex P [] = None"
| "findIndex P (x # xs) = (if P x then Some 0 else map_option Suc (findIndex P xs))"

text \<open>
  The store is the parsed content of \<^verbatim>\<open>contracts.json\<close>; reading and writing the file
  are taken to succeed. The current time and the generated id are inputs.
\<close>

definition getContractsByVendor :: "jsval option \<Rightarrow> Contract list \<Rightarrow> Contract list" where
  "getContractsByVendor vendor contracts =
     filter (\<lambda>contract. strict_eq (vendorId contract) vendor \<and> status contract \<noteq> Deleted) contracts"

definition createContract :: "NewContract \<Rightarrow> string \<Rightarrow> string \<Rightarrow> Contract list \<Rightarrow> string \<times> Contract list" where
  "createContract contractData newId now contracts =
     (newId,
      contracts @
        [\<lparr>contractId = newId, vendorId = n_vendorId contractData,
          clientName = n_clientName contractData, eventDate = n_eventDate contractData,
          eventVenue = n_eventVenue contractData, servicePackage = n_servicePackage contractData,
          amount = Some (stringify_number (JNum (n_amount contractData))),
          content = n_content contractData, status = n_status contractData,
          signature = None, createdAt = now, updatedAt = now\<rparr>])"

text \<open>The object spread \<^verbatim>\<open>{ ...contract, ...updates, updatedAt: now }\<close>.\<close>

definition or_else :: "'a option \<Rightarrow> 'a option \<Rightarrow> 'a option" where
  "or_else new old = (case new of None \<Rightarrow> old | Some v \<Rightarrow> Some v)"

definition merge_updates :: "Contract \<Rightarrow> PartialContract \<Rightarrow> string \<Rightarrow> Contract" where
  "merge_updates c updates now =
     c\<lparr>clientName := or_else (p_clientName updates) (clientName c),
       eventDate := or_else (p_eventDate updates) (eventDate c),
       eventVenue := or_else (p_eventVenue updates) (eventVenue c),
       servicePackage := or_else (p_servicePackage updates) (servicePackage c),
       amount := or_else (map_option stringify_number (p_amount updates)) (amount c),
       content := or_else (p_content updates) (content c),
       status := (case p_status updates of None \<Rightarrow> status c | Some st \<Rightarrow> st),
       signature := or_else (p_signature updates) (signature c),
       updatedAt := now\<rparr>"

definition updateContract :: "string \<Rightarrow> PartialContract \<Rightarrow> string \<Rightarrow> Contract list \<Rightarrow> exn + Contract list" where
  "updateContract cid updates now contracts =
     (case findIndex (\<lambda>c. contractId c = cid) contracts of
        None \<Rightarrow> Inl (Failure ''Failed to update contract'')
      | Some contractIndex \<Rightarrow>
          Inr (contracts[contractIndex := merge_updates (contracts ! contractIndex) updates now]))"

definition getContract :: "string \<Rightarrow> Contract list \<Rightarrow> Contract option" where
  "getContract cid contracts = find (\<lambda>c. contractId c = cid) contracts"

definition no_updates :: PartialContract where
  "no_updates = \<lparr>p_clientName = None, p_eventDate = None, p_eventVenue = None,
     p_servicePackage = None, p_amount = None, p_content = None, p_status = None,
     p_signature = None\<rparr>"

definition saveSignature :: "string \<Rightarrow> SignatureData \<Rightarrow> string \<Rightarrow> Contract list \<Rightarrow> exn + Contract list" where
  "saveSignature cid sg now contracts =
     (case updateContract cid (no_updates\<lparr>p_signature := Some sg, p_status := Some Signed\<rparr>) now contracts of
        Inl e \<Rightarrow> Inl (Failure ''Failed to save signature'')
      | Inr contracts' \<Rightarrow> Inr contracts')"

definition deleteContract :: "string \<Rightarrow> string \<Rightarrow> Contract list \<Rightarrow> exn + Contract list" where
  "deleteContract cid now contracts =
     (case updateContract cid (no_updates\<lparr>p_status := Some Deleted\<rparr>) now contracts of
        Inl e \<Rightarrow> Inl (Failure ''Failed to delete contract'')
      | Inr contracts' \<Rightarrow> Inr contracts')"

section \<open>Requests and responses\<close>

text \<open>
  The text of a cookie either fails \<^verbatim>\<open>JSON.parse\<close> or parses to a value. A request
  carries the 'session' cookie, if any, and a body; \<open>None\<close> is a body for which
  \<^verbatim>\<open>request.json()\<close> rejects.
\<close>

datatype cookie_value = Unparsable | Parsed jsval

record request =
  cookie :: "cookie_value option"
  body :: "jsval option"

datatype payload =
    NoData
  | ContractList "Contract list"
  | OneContract Contract
  | CreatedId string
  | ValidationErrors FieldErrors
  | UserData jsval
  | Message string

record response =
  http_status :: nat
  success :: bool
  error :: "string option"
  data :: payload

definition failure :: "nat \<Rightarrow> string \<Rightarrow> response" where
  "failure code msg = \<lparr>http_status = code, success = False, error = Some msg, data = NoData\<rparr>"

definition ok :: "payload \<Rightarrow> response" where
  "ok d = \<lparr>http_status = 200, success = True, error = None, data = d\<rparr>"

text \<open>\<^verbatim>\<open>JSON.parse(sessionCookie.value).id\<close>.\<close>

fun session_id :: "cookie_value \<Rightarrow> exn + jsval option" where
  "session_id Unparsable = Inl SyntaxError"
| "session_id (Parsed session) = get_prop session ''id''"

section \<open>The contract routes (app/api/contracts)\<close>

text \<open>
  Every handler returns its response and the store it leaves behind. An exception thrown
  inside the handler's \<^verbatim>\<open>try\<close> block becomes its status 500 response.
\<close>

definition GET_contracts :: "request \<Rightarrow> Contract list \<Rightarrow> response \<times> Contract list" where
  "GET_contracts req contracts =
     (case cookie req of
        None \<Rightarrow> (failure 401 ''Not authenticated'', contracts)
      | Some sessionCookie \<Rightarrow>
     (case session_id sessionCookie of
        Inl e \<Rightarrow> (failure 500 ''Failed to fetch contracts'', contracts)
      | Inr vendor \<Rightarrow> (ok (ContractList (getContractsByVendor vendor contracts)), contracts)))"

text \<open>
  \<^verbatim>\<open>const { clientName, eventDate, eventVenue, servicePackage, amount, content } = body\<close>:
  destructuring null throws.
\<close>

definition contract_fields :: "jsval \<Rightarrow> exn + PartialContract" where
  "contract_fields b =
     (case get_prop b ''clientName'' of
        Inl e \<Rightarrow> Inl e
      | Inr cn \<Rightarrow>
          Inr \<lparr>p_clientName = cn,
               p_eventDate = prop_of b ''eventDate'',
               p_eventVenue = prop_of b ''eventVenue'',
               p_servicePackage = prop_of b ''servicePackage'',
               p_amount = prop_of b ''amount'',
               p_content = prop_of b ''content'',
               p_status = None, p_signature = None\<rparr>)"

definition POST_contracts ::
  "platform \<Rightarrow> string \<Rightarrow> string \<Rightarrow> request \<Rightarrow> Contract list \<Rightarrow> response \<times> Contract list" where
  "POST_contracts env newId now req contracts =
     (case cookie req of
        None \<Rightarrow> (failure 401 ''Not authenticated'', contracts)
      | Some sessionCookie \<Rightarrow>
     (case session_id sessionCookie of
        Inl e \<Rightarrow> (failure 500 ''Failed to create contract'', contracts)
      | Inr vendor \<Rightarrow>
     (case body req of
        None \<Rightarrow> (failure 500 ''Failed to create contract'', contracts)
      | Some b \<Rightarrow>
     (case contract_fields b of
        Inl e \<Rightarrow> (failure 500 ''Failed to create contract'', contracts)
      | Inr input \<Rightarrow>
     (case validateNewContract env input of
        Inl e \<Rightarrow> (failure 500 ''Failed to create contract'', contracts)
      | Inr validation \<Rightarrow>
          if \<not> isValid validation then
            (\<lparr>http_status = 400, success = False, error = Some ''Validation failed'',
              data = ValidationErrors (errors validation)\<rparr>, contracts)
          else
     (case parseFloat env (p_amount input) of
        Inl e \<Rightarrow> (failure 500 ''Failed to create contract'', contracts)
      | Inr parsedAmount \<Rightarrow>
     (case createContract
             \<lparr>n_vendorId = vendor, n_clientName = p_clientName input,
              n_eventDate = p_eventDate input, n_eventVenue = p_eventVenue input,
              n_servicePackage = p_servicePackage input, n_amount = parsedAmount,
              n_content = p_content input, n_status = Draft\<rparr>
             newId now contracts of
        (cid, contracts') \<Rightarrow>
          (\<lparr>http_status = 201, success = True, error = None, data = CreatedId cid\<rparr>,
           contracts'))))))))"

section \<open>The routes of one contract (app/api/contracts/[id])\<close>

definition GET_contract :: "string \<Rightarrow> request \<Rightarrow> Contract list \<Rightarrow> response \<times> Contract list" where
  "GET_contract cid req contracts =
     (case cookie req of
        None \<Rightarrow> (failure 401 ''Not authenticated'', contracts)
      | Some sessionCookie \<Rightarrow>
     (case session_id sessionCookie of
        Inl e \<Rightarrow> (failure 500 ''Failed to fetch contract'', contracts)
      | Inr vendor \<Rightarrow>
     (case getContract cid contracts of
        None \<Rightarrow> (failure 404 ''Contract not found'', contracts)
      | Some contract \<Rightarrow>
          if \<not> strict_eq (vendorId contract) vendor then (failure 403 ''Access denied'', contracts)
          else (ok (OneContract contract), contracts))))"

text \<open>
  The update object of PUT: a key is set only for a value that is not undefined, and the
  amount goes through \<^verbatim>\<open>parseFloat\<close>.
\<close>

definition updateData_of :: "platform \<Rightarrow> PartialContract \<Rightarrow> exn + PartialContract" where
  "updateData_of env input =
     (case p_amount input of
        None \<Rightarrow> Inr input
      | Some a \<Rightarrow>
          (case parseFloat env (Some a) of
             Inl e \<Rightarrow> Inl e
           | Inr n \<Rightarrow> Inr (input\<lparr>p_amount := Some (JNum n)\<rparr>)))"

definition PUT_contract ::
  "platform \<Rightarrow> string \<Rightarrow> string \<Rightarrow> request \<Rightarrow> Contract list \<Rightarrow> response \<times> Contract list" where
  "PUT_contract env cid now req contracts =
     (case cookie req of
        None \<Rightarrow> (failure 401 ''Not authenticated'', contracts)
      | Some sessionCookie \<Rightarrow>
     (case session_id sessionCookie of
        Inl e \<Rightarrow> (failure 500 ''Failed to update contract'', contracts)
      | Inr vendor \<Rightarrow>
     (case getContract cid contracts of
        None \<Rightarrow> (failure 404 ''Contract not found'', contracts)
      | Some existingContract \<Rightarrow>
          if \<not> strict_eq (vendorId existingContract) vendor then
            (failure 403 ''Access denied'', contracts)
          else if status existingContract = Signed then
            (failure 400 ''Cannot edit signed contracts'', contracts)
          else
     (case body req of
        None \<Rightarrow> (failure 500 ''Failed to update contract'', contracts)
      | Some b \<Rightarrow>
     (case contract_fields b of
        Inl e \<Rightarrow> (failure 500 ''Failed to update contract'', contracts)
      | Inr input \<Rightarrow>
     (case updateData_of env input of
        Inl e \<Rightarrow> (failure 500 ''Failed to update contract'', contracts)
      | Inr updateData \<Rightarrow>
     (case validateContractData env updateData of
        Inl e \<Rightarrow> (failure 500 ''Failed to update contract'', contracts)
      | Inr validation \<Rightarrow>
          if \<not> isValid validation then
            (\<lparr>http_status = 400, success = False, error = Some ''Validation failed'',
              data = ValidationErrors (errors validation)\<rparr>, contracts)
          else
            (case updateContract cid updateData now contracts of
               Inl e \<Rightarrow> (failure 500 ''Failed to update contract'', contracts)
             | Inr contracts' \<Rightarrow> (ok NoData, contracts')))))))))"

definition DELETE_contract ::
  "string \<Rightarrow> string \<Rightarrow> request \<Rightarrow> Contract list \<Rightarrow> response \<times> Contract list" where
  "DELETE_contract cid now req contracts =
     (case cookie req of
        None \<Rightarrow> (failure 401 ''Not authenticated'', contracts)
      | Some sessionCookie \<Rightarrow>
     (case session_id sessionCookie of
        Inl e \<Rightarrow> (failure 500 ''Failed to delete contract'', contracts)
      | Inr vendor \<Rightarrow>
     (case getContract cid contracts of
        None \<Rightarrow> (failure 404 ''Contract not found'', contracts)
      | Some existingContract \<Rightarrow>
          if \<not> strict_eq (vendorId existingContract) vendor then
            (failure 403 ''Access denied'', contracts)
          else
            (case deleteContract cid now contracts of
               Inl e \<Rightarrow> (failure 500 ''Failed to delete contract'', contracts)
             | Inr contracts' \<Rightarrow> (ok NoData, contracts')))))"

section \<open>The sign route (app/api/contracts/[id]/sign)\<close>

text \<open>
  \<open>stamp\<close> is the clock reading taken for the signature's timestamp, \<open>now\<close> the later one
  that updateContract takes for \<^verbatim>\<open>updatedAt\<close>.
\<close>

definition POST_sign ::
  "string \<Rightarrow> string \<Rightarrow> string \<Rightarrow> request \<Rightarrow> Contract list \<Rightarrow> response \<times> Contract list" where
  "POST_sign cid stamp now req contracts =
     (case cookie req of
        None \<Rightarrow> (failure 401 ''Not authenticated'', contracts)
      | Some sessionCookie \<Rightarrow>
     (case session_id sessionCookie of
        Inl e \<Rightarrow> (failure 500 ''Failed to sign contract'', contracts)
      | Inr vendor \<Rightarrow>
     (case getContract cid contracts of
        None \<Rightarrow> (failure 404 ''Contract not found'', contracts)
      | Some existingContract \<Rightarrow>
          if \<not> strict_eq (vendorId existingContract) vendor then
            (failure 403 ''Access denied'', contracts)
          else if status existingContract = Signed then
            (failure 400 ''Contract is already signed'', contracts)
          else
     (case body req of
        None \<Rightarrow> (failure 500 ''Failed to sign contract'', contracts)
      | Some b \<Rightarrow>
     (case get_prop b ''type'' of
        Inl e \<Rightarrow> (failure 500 ''Failed to sign contract'', contracts)
      | Inr ty \<Rightarrow>
     (case (ty, prop_of b ''data'') of
        (Some t, Some d) \<Rightarrow>
          if \<not> truthy t \<or> \<not> truthy d then (failure 400 ''Invalid signature data'', contracts)
          else
            (case t of
               JStr tname \<Rightarrow>
                 if tname \<notin> set [''drawn'', ''typed''] then
                   (failure 400 ''Invalid signature type'', contracts)
                 else
                   (case saveSignature cid \<lparr>sig_type = tname, sig_data = d, timestamp = stamp\<rparr>
                           now contracts of
                      Inl e \<Rightarrow> (failure 500 ''Failed to sign contract'', contracts)
                    | Inr contracts' \<Rightarrow> (ok NoData, contracts'))
             | _ \<Rightarrow> (failure 400 ''Invalid signature type'', contracts))
      | _ \<Rightarrow> (failure 400 ''Invalid signature data'', contracts)))))))"

section \<open>The contract API as a whole\<close>

text \<open>
  One call of the contract API with the inputs its handler reads besides the request: the
  contract id of the path, the generated id and the clock readings.
\<close>

datatype api_call =
    ListContracts
  | CreateContract string string
  | GetContract string
  | UpdateContract string string
  | DeleteContract string string
  | SignContract string string string

fun handle :: "platform \<Rightarrow> api_call \<Rightarrow> request \<Rightarrow> Contract list \<Rightarrow> response \<times> Contract list" where
  "handle env ListContracts req contracts = GET_contracts req contracts"
| "handle env (CreateContract newId now) req contracts = POST_contracts env newId now req contracts"
| "handle env (GetContract cid) req contracts = GET_contract cid req contracts"
| "handle env (UpdateContract cid now) req contracts = PUT_contract env cid now req contracts"
| "handle env (DeleteContract cid now) req contracts = DELETE_contract cid now req contracts"
| "handle env (SignContract cid stamp now) req contracts = POST_sign cid stamp now req contracts"

text \<open>A sequence of calls, each on the store the previous one left.\<close>

fun run :: "platform \<Rightarrow> (api_call \<times> request) list \<Rightarrow> Contract list \<Rightarrow> Contract list" where
  "run env [] contracts = contracts"
| "run env ((call, req) # rest) contracts = run env rest (snd (handle env call req contracts))"

fun pathname :: "api_call \<Rightarrow> string" where
  "pathname ListContracts = ''/api/contracts''"
| "pathname (CreateContract newId now) = ''/api/contracts''"
| "pathname (GetContract cid) = ''/api/contracts/'' @ cid"
| "pathname (UpdateContract cid now) = ''/api/contracts/'' @ cid"
| "pathname (DeleteContract cid now) = ''/api/contracts/'' @ cid"
| "pathname (SignContract cid stamp now) = ''/api/contracts/'' @ cid @ ''/sign''"

section \<open>The middleware (middleware.ts)\<close>

datatype middleware_result = Next | Respond response | Redirect string

definition middleware :: "string \<Rightarrow> cookie_value option \<Rightarrow> middleware_result" where
  "middleware path sessionCookie =
     (let publicRoutes = [''/login''];
          isPublicRoute = (path \<in> set publicRoutes);
          publicApiRoutes = [''/api/auth/login''];
          isPublicApiRoute = list_ex (\<lambda>route. prefix route path) publicApiRoutes
      in
      if isPublicRoute \<or> isPublicApiRoute then Next
      else if prefix ''/api/'' path then
        (case sessionCookie of
           None \<Rightarrow> Respond (failure 401 ''Not authenticated'')
         | Some Unparsable \<Rightarrow> Respond (failure 401 ''Invalid session'')
         | Some (Parsed v) \<Rightarrow> Next)
      else
        (case sessionCookie of
           None \<Rightarrow> Redirect ''/login''
         | Some Unparsable \<Rightarrow> Redirect ''/login''
         | Some (Parsed v) \<Rightarrow> Next))"

section \<open>Authentication (app/api/auth)\<close>

text \<open>
  An entry of \<^verbatim>\<open>users.json\<close>, of type \<^verbatim>\<open>User & { password: string }\<close>, and the body
  of a login request, of type \<^verbatim>\<open>LoginCredentials\<close>, where a field can be missing.
\<close>

record UserRecord =
  user_id :: string
  user_email :: string
  user_vendorType :: string
  user_name :: string
  user_password :: string

record LoginCredentials =
  email :: "string option"
  password :: "string option"

text \<open>\<^verbatim>\<open>!s\<close> for a string that may be undefined.\<close>

definition blank :: "string option \<Rightarrow> bool" where
  "blank s = (s = None \<or> s = Some [])"

text \<open>
  The object literal \<^verbatim>\<open>{ id, email, vendorType, name }\<close> of the login route, as the JSON
  value that \<^verbatim>\<open>JSON.stringify\<close> writes into the cookie and the response.
\<close>

definition sessionUser :: "UserRecord \<Rightarrow> jsval" where
  "sessionUser user =
     JObj [(''id'', JStr (user_id user)), (''email'', JStr (user_email user)),
           (''vendorType'', JStr (user_vendorType user)), (''name'', JStr (user_name user))]"

text \<open>
  POST /api/auth/login returns its response and the cookie it sets, if any. \<open>None\<close> as the
  body is a request whose JSON does not parse or is null.
\<close>

definition POST_login ::
  "LoginCredentials option \<Rightarrow> UserRecord list \<Rightarrow> response \<times> cookie_value option" where
  "POST_login credentials users =
     (case credentials of
        None \<Rightarrow> (failure 500 ''Internal server error'', None)
      | Some c \<Rightarrow>
          if blank (email c) \<or> blank (password c) then
            (failure 400 ''Email and password are required'', None)
          else
            (case find (\<lambda>u. Some (user_email u) = email c \<and> Some (user_password u) = password c) users of
               None \<Rightarrow> (failure 401 ''Invalid email or password'', None)
             | Some user \<Rightarrow> (ok (UserData (sessionUser user)), Some (Parsed (sessionUser user)))))"

text \<open>GET /api/auth/me echoes the parsed session cookie.\<close>

definition GET_me :: "cookie_value option \<Rightarrow> response" where
  "GET_me sessionCookie =
     (case sessionCookie of
        None \<Rightarrow> failure 401 ''Not authenticated''
      | Some Unparsable \<Rightarrow> failure 401 ''Invalid session''
      | Some (Parsed user) \<Rightarrow> ok (UserData user))"

text \<open>POST /api/auth/logout deletes the cookie.\<close>

definition POST_logout :: "response \<times> cookie_value option" where
  "POST_logout = (ok (Message ''Logged out successfully''), None)"

text \<open>The keys of a JSON object.\<close>

fun keys :: "jsval \<Rightarrow> string list" where
  "keys (JObj kvs) = map fst kvs"
| "keys v = []"

section \<open>AI assistance (lib/ai-service, app/api/ai-assist)\<close>















section \<open>Notions used in the statements\<close>

text \<open>The contract that a call of the API addresses by the id in its path.\<close>

definition target :: "api_call \<Rightarrow> string option" where
  "target call =
     (case call of
        GetContract cid \<Rightarrow> Some cid
      | UpdateContract cid now \<Rightarrow> Some cid
      | DeleteContract cid now \<Rightarrow> Some cid
      | SignContract cid stamp now \<Rightarrow> Some cid
      | _ \<Rightarrow> None)"

text \<open>
  A later store keeps every record of an earlier one at its place, and no record that had
  left the status 'draft' is back in it.
\<close>

definition keeps_left_draft :: "Contract list \<Rightarrow> Contract list \<Rightarrow> bool" where
  "keeps_left_draft contracts contracts' \<longleftrightarrow>
     length contracts \<le> length contracts'
     \<and> (\<forall>i<length contracts. status (contracts ! i) \<noteq> Draft \<longrightarrow> status (contracts' ! i) \<noteq> Draft)"

section \<open>Example data\<close>

text \<open>A small store, two sessions and some requests, on which the theorems are run.\<close>

definition example_env :: platform where
  "example_env = \<lparr>parseFloat_text = (\<lambda>v. Inr NaN), toNumber_text = (\<lambda>v. Inr NaN),
     Date_parse = (\<lambda>s. None), today_start = 0\<rparr>"

definition alice :: UserRecord where
  "alice = \<lparr>user_id = ''user_1'', user_email = ''alice@example.com'',
     user_vendorType = ''photographer'', user_name = ''Alice Photo'', user_password = ''hunter2''\<rparr>"

definition alice_cookie :: cookie_value where
  "alice_cookie = Parsed (sessionUser alice)"

definition bob_cookie :: cookie_value where
  "bob_cookie = Parsed (JObj [(''id'', JStr ''user_2'')])"

definition example_contract :: "status \<Rightarrow> Contract" where
  "example_contract st =
     \<lparr>contractId = ''contract_1'', vendorId = Some (JStr ''user_1''),
      clientName = Some (JStr ''Ann and Ben''), eventDate = Some (JStr ''2030-06-01''),
      eventVenue = Some (JStr ''Rose Hall''), servicePackage = Some (JStr ''Full day''),
      amount = Some (JNum (Fin 2500)), content = Some (JStr ''Terms''),
      status = st, signature = None,
      createdAt = ''2024-01-01T09:00:00.000Z'', updatedAt = ''2024-01-01T09:00:00.000Z''\<rparr>"

definition typed_signature_body :: jsval where
  "typed_signature_body = JObj [(''type'', JStr ''typed''), (''data'', JStr ''Alice Photo'')]"



section \<open>Lookup in the store\<close>

lemma findIndex_Some:
  "findIndex P xs = Some i \<Longrightarrow>
     i < length xs \<and> P (xs ! i) \<and> (\<forall>j<i. \<not> P (xs ! j)) \<and> find P xs = Some (xs ! i)"
proof (induction xs arbitrary: i)
  case Nil
  then show ?case by simp
next
  case (Cons x xs)
  show ?case
  proof (cases "P x")
    case True
    with Cons.prems show ?thesis by simp
  next
    case False
    with Cons.prems obtain k where k: "findIndex P xs = Some k" "i = Suc k"
      by auto
    from Cons.IH[OF k(1)] False k(2) show ?thesis
      by (auto simp: less_Suc_eq_0_disj)
  qed
qed

lemma find_findIndex:
  "find P xs = Some c \<Longrightarrow> \<exists>i. findIndex P xs = Some i \<and> i < length xs \<and> xs ! i = c"
proof (induction xs)
  case Nil
  then show ?case by simp
next
  case (Cons x xs)
  then show ?case by (cases "P x") auto
qed

text \<open>In a store whose ids are distinct, every contract is the one its id finds.\<close>

lemma getContract_distinct:
  "distinct (map contractId contracts) \<Longrightarrow> c \<in> set contracts \<Longrightarrow>
     getContract (contractId c) contracts = Some c"
  unfolding getContract_def
proof (induction contracts)
  case Nil
  then show ?case by simp
next
  case (Cons x xs)
  then show ?case by (cases "x = c") (auto simp: image_iff)
qed

lemma getContract_id: "getContract cid contracts = Some c \<Longrightarrow> contractId c = cid \<and> c \<in> set contracts"
  unfolding getContract_def by (auto simp: find_Some_iff)

lemma updateContract_found:
  assumes "getContract cid contracts = Some c"
  shows "\<exists>i<length contracts. contracts ! i = c \<and> (\<forall>j<i. contractId (contracts ! j) \<noteq> cid)
           \<and> updateContract cid u now contracts = Inr (contracts[i := merge_updates c u now])"
proof -
  from assms obtain i where i: "findIndex (\<lambda>c. contractId c = cid) contracts = Some i"
    "i < length contracts" "contracts ! i = c"
    unfolding getContract_def using find_findIndex by fastforce
  from findIndex_Some [OF i(1)] have "\<forall>j<i. contractId (contracts ! j) \<noteq> cid" by simp
  with i show ?thesis
    by (auto simp: updateContract_def)
qed

lemma merge_delete:
  "merge_updates c (no_updates\<lparr>p_status := Some Deleted\<rparr>) now = c\<lparr>status := Deleted, updatedAt := now\<rparr>"
  by (simp add: merge_updates_def no_updates_def or_else_def)


lemma other_ids_after_update:
  assumes d: "distinct (map contractId contracts)" and i: "i < length contracts"
    and x: "x \<in> set (contracts[i := c'])" and id: "contractId x = contractId (contracts ! i)"
  shows "x = c'"
proof -
  from x obtain j where j: "j < length contracts" "x = contracts[i := c'] ! j"
    by (auto simp: in_set_conv_nth)
  show ?thesis
  proof (cases "j = i")
    case True
    with j i show ?thesis by simp
  next
    case False
    with j have "x = contracts ! j" by simp
    with id have same: "contractId (contracts ! j) = contractId (contracts ! i)" by simp
    have "(map contractId contracts ! j = map contractId contracts ! i) = (j = i)"
      using d j(1) i by (intro nth_eq_iff_index_eq) simp_all
    with same j(1) i have "j = i" by simp
    with False show ?thesis by simp
  qed
qed



lemma contract_fields_status: "contract_fields b = Inr input \<Longrightarrow> p_status input = None \<and> p_signature input = None"
  by (auto simp: contract_fields_def split: sum.splits)

lemma updateData_of_status:
  "updateData_of env input = Inr updateData \<Longrightarrow>
     p_status updateData = p_status input \<and> p_signature updateData = p_signature input"
  by (auto simp: updateData_of_def split: option.splits sum.splits)


section \<open>Facts about the example data\<close>

lemma session_alice: "session_id alice_cookie = Inr (Some (JStr ''user_1''))"
  by (simp add: alice_cookie_def sessionUser_def alice_def)

lemma session_bob: "session_id bob_cookie = Inr (Some (JStr ''user_2''))"
  by (simp add: bob_cookie_def)

lemma getContract_example: "getContract ''contract_1'' [example_contract st] = Some (example_contract st)"
  by (simp add: getContract_def example_contract_def)


section \<open>The status chain\<close>

text \<open>
  C1. The claim is that no sequence of authenticated operations moves a contract's status
  backward along draft, signed, deleted, and that a deleted contract never becomes signed
  or draft again. The sign route refuses only a contract that is already signed, so the
  owner's delete followed by the owner's sign leaves the deleted contract with status
  'signed': the code run on that sequence.
\<close>

theorem sign_revives_deleted_contract:
  "map status (run example_env
      [(DeleteContract ''contract_1'' ''2024-03-01T12:00:00.000Z'',
          \<lparr>cookie = Some alice_cookie, body = None\<rparr>)]
      [example_contract Draft]) = [Deleted]
   \<and> map status (run example_env
      [(DeleteContract ''contract_1'' ''2024-03-01T12:00:00.000Z'',
          \<lparr>cookie = Some alice_cookie, body = None\<rparr>),
       (SignContract ''contract_1'' ''2024-03-05T12:00:00.000Z'' ''2024-03-05T12:00:00.005Z'',
          \<lparr>cookie = Some alice_cookie, body = Some typed_signature_body\<rparr>)]
      [example_contract Draft]) = [Signed]"
  by (simp add: DELETE_contract_def POST_sign_def deleteContract_def saveSignature_def
      updateContract_def getContract_def merge_updates_def no_updates_def or_else_def
      session_alice example_contract_def typed_signature_body_def)

subsection \<open>The part of the chain that no operation breaks\<close>

text \<open>
  Update never writes a status, sign writes 'signed' and delete writes 'deleted', and
  create appends a record. So along every sequence of calls a record that has left
  'draft' does not return to it.
\<close>

lemma updateContract_shape:
  "updateContract cid u now contracts = Inr contracts' \<Longrightarrow>
     \<exists>i<length contracts. contracts' = contracts[i := merge_updates (contracts ! i) u now]"
  by (auto simp: updateContract_def split: option.splits dest: findIndex_Some)

lemma merge_status_not_draft:
  "p_status u \<noteq> Some Draft \<Longrightarrow> status c \<noteq> Draft \<Longrightarrow> status (merge_updates c u now) \<noteq> Draft"
  by (auto simp: merge_updates_def split: option.splits)

lemma keeps_refl: "keeps_left_draft contracts contracts"
  by (simp add: keeps_left_draft_def)

lemma keeps_trans:
  "keeps_left_draft a b \<Longrightarrow> keeps_left_draft b c \<Longrightarrow> keeps_left_draft a c"
  by (auto simp: keeps_left_draft_def)

lemma keeps_update:
  "updateContract cid u now contracts = Inr contracts' \<Longrightarrow> p_status u \<noteq> Some Draft \<Longrightarrow>
     keeps_left_draft contracts contracts'"
proof -
  assume u: "updateContract cid u now contracts = Inr contracts'" and d: "p_status u \<noteq> Some Draft"
  from updateContract_shape [OF u] obtain i where i: "i < length contracts"
    "contracts' = contracts[i := merge_updates (contracts ! i) u now]"
    by blast
  have "status (contracts' ! j) \<noteq> Draft" if "j < length contracts" "status (contracts ! j) \<noteq> Draft" for j
    using that i merge_status_not_draft [OF d, of "contracts ! i" now]
    by (cases "j = i") simp_all
  with i show ?thesis
    by (simp add: keeps_left_draft_def)
qed

lemma keeps_append: "keeps_left_draft contracts (contracts @ [c])"
  by (simp add: keeps_left_draft_def nth_append)

lemma handle_keeps: "keeps_left_draft contracts (snd (handle env call req contracts))"
proof (cases call)
  case ListContracts
  then show ?thesis
    by (simp add: GET_contracts_def keeps_refl split: option.splits sum.splits)
next
  case (CreateContract newId now)
  then show ?thesis
    by (auto simp: POST_contracts_def createContract_def keeps_refl keeps_append
        split: option.splits sum.splits)
next
  case (GetContract cid)
  then show ?thesis
    by (simp add: GET_contract_def keeps_refl split: option.splits sum.splits)
next
  case (UpdateContract cid now)
  then show ?thesis
    by (auto simp: PUT_contract_def keeps_refl split: option.splits sum.splits
        dest!: contract_fields_status updateData_of_status intro!: keeps_update)
next
  case (DeleteContract cid now)
  then show ?thesis
    by (auto simp: DELETE_contract_def deleteContract_def keeps_refl no_updates_def
        split: option.splits sum.splits intro!: keeps_update)
next
  case (SignContract cid stamp now)
  then show ?thesis
    by (auto simp: POST_sign_def saveSignature_def keeps_refl no_updates_def
        split: option.splits sum.splits jsval.splits intro!: keeps_update)
qed

lemma run_keeps: "keeps_left_draft contracts (run env calls contracts)"
proof (induction calls arbitrary: contracts)
  case Nil
  show ?case by (simp add: keeps_refl)
next
  case (Cons a calls)
  obtain call req where a: "a = (call, req)" by (cases a)
  have "keeps_left_draft contracts (snd (handle env call req contracts))"
    by (rule handle_keeps)
  moreover have "keeps_left_draft (snd (handle env call req contracts))
                   (run env calls (snd (handle env call req contracts)))"
    by (rule Cons.IH)
  ultimately show ?case
    unfolding a by (simp add: keeps_trans)
qed

section \<open>Editing and the signed status\<close>

text \<open>
  C2. For a contract owned by the session's vendor and a request whose body passes the
  validation of the update (the body parses, the update object is built and
  \<^verbatim>\<open>validateContractData\<close> accepts it), PUT /api/contracts/[id] answers 400 'Cannot edit
  signed contracts' exactly when the contract's status is 'signed', and then the store is
  unchanged; a contract with status 'draft' or 'deleted' is replaced by its merge with
  the update, which keeps its status and signature and refreshes updatedAt.
\<close>

theorem put_signed_guard:
  assumes "cookie req = Some ck" and "session_id ck = Inr vendor"
    and "getContract cid contracts = Some c" and "strict_eq (vendorId c) vendor"
    and "body req = Some b" and "contract_fields b = Inr input"
    and "updateData_of env input = Inr updateData"
    and "validateContractData env updateData = Inr validation" and "isValid validation"
  shows
    "(fst (PUT_contract env cid now req contracts) = failure 400 ''Cannot edit signed contracts''
        \<longleftrightarrow> status c = Signed)
     \<and> (status c = Signed \<longrightarrow> snd (PUT_contract env cid now req contracts) = contracts)
     \<and> (status c \<noteq> Signed \<longrightarrow>
          (\<exists>i<length contracts. contracts ! i = c
             \<and> PUT_contract env cid now req contracts
                 = (ok NoData, contracts[i := merge_updates c updateData now])
             \<and> status (merge_updates c updateData now) = status c
             \<and> signature (merge_updates c updateData now) = signature c
             \<and> updatedAt (merge_updates c updateData now) = now))"
proof -
  from updateContract_found [OF assms(3), of updateData now]
  obtain i where i: "i < length contracts" "contracts ! i = c"
    and u: "updateContract cid updateData now contracts = Inr (contracts[i := merge_updates c updateData now])"
    by blast
  have signed: "PUT_contract env cid now req contracts
                  = (failure 400 ''Cannot edit signed contracts'', contracts)"
    if "status c = Signed"
    using assms(1-4) that by (simp add: PUT_contract_def)
  have other: "PUT_contract env cid now req contracts
                  = (ok NoData, contracts[i := merge_updates c updateData now])"
    if "status c \<noteq> Signed"
    using assms that u by (simp add: PUT_contract_def)
  have keep: "status (merge_updates c updateData now) = status c"
    "signature (merge_updates c updateData now) = signature c"
    "updatedAt (merge_updates c updateData now) = now"
    using contract_fields_status [OF assms(6)] updateData_of_status [OF assms(7)]
    by (simp_all add: merge_updates_def or_else_def)
  have "fst (PUT_contract env cid now req contracts) = failure 400 ''Cannot edit signed contracts''
        \<longleftrightarrow> status c = Signed"
    using signed other by (cases "status c = Signed") (simp_all add: ok_def failure_def)
  with signed other keep i show ?thesis by auto
qed


theorem put_signed_guard_witness:
  "PUT_contract example_env ''contract_1'' ''2024-03-02T08:00:00.000Z''
      \<lparr>cookie = Some alice_cookie, body = Some (JObj [(''clientName'', JStr ''Cara and Dan'')])\<rparr>
      [example_contract Signed]
     = (failure 400 ''Cannot edit signed contracts'', [example_contract Signed])
   \<and> PUT_contract example_env ''contract_1'' ''2024-03-02T08:00:00.000Z''
      \<lparr>cookie = Some alice_cookie, body = Some (JObj [(''clientName'', JStr ''Cara and Dan'')])\<rparr>
      [example_contract Deleted]
     = (ok NoData,
        [(example_contract Deleted)\<lparr>clientName := Some (JStr ''Cara and Dan''),
            updatedAt := ''2024-03-02T08:00:00.000Z''\<rparr>])"
proof -
  let ?b = "JObj [(''clientName'', JStr ''Cara and Dan'')]"
  let ?req = "\<lparr>cookie = Some alice_cookie, body = Some ?b\<rparr>"
  let ?now = "''2024-03-02T08:00:00.000Z''"
  let ?u = "no_updates\<lparr>p_clientName := Some (JStr ''Cara and Dan'')\<rparr>"
  let ?v = "\<lparr>isValid = True, errors = \<lparr>e_clientName = None, e_eventDate = None, e_eventVenue = None,
                e_servicePackage = None, e_amount = None, e_content = None\<rparr>\<rparr>"
  have c: "cookie ?req = Some alice_cookie" and b: "body ?req = Some ?b" by simp_all
  have o: "strict_eq (vendorId (example_contract st)) (Some (JStr ''user_1''))" for st
    by (simp add: example_contract_def)
  have f: "contract_fields ?b = Inr ?u"
    by (simp add: contract_fields_def no_updates_def)
  have d: "updateData_of example_env ?u = Inr ?u"
    by (simp add: updateData_of_def no_updates_def)
  have t: "trim ''Cara and Dan'' \<noteq> []"
    by (simp add: trim_def isWhiteSpace_def)
  have v: "validateContractData example_env ?u = Inr ?v"
    using t by (simp add: validateContractData_def no_updates_def)
  have ok: "isValid ?v" by simp
    note putS = put_signed_guard [OF c session_alice getContract_example [of Signed] o [of Signed] b f d v ok, where now = ?now]
  note putD = put_signed_guard [OF c session_alice getContract_example [of Deleted] o [of Deleted] b f d v ok, where now = ?now]
  have 1: "PUT_contract example_env ''contract_1'' ?now ?req [example_contract Signed]
     = (failure 400 ''Cannot edit signed contracts'', [example_contract Signed])"
    using putS by (simp add: example_contract_def prod_eq_iff)
  have m: "merge_updates (example_contract Deleted) ?u ?now
             = (example_contract Deleted)\<lparr>clientName := Some (JStr ''Cara and Dan''), updatedAt := ?now\<rparr>"
    by (simp add: merge_updates_def no_updates_def or_else_def)
  from putD
  have "\<exists>i<length [example_contract Deleted].
           PUT_contract example_env ''contract_1'' ?now ?req [example_contract Deleted]
             = (ok NoData, [example_contract Deleted][i := merge_updates (example_contract Deleted) ?u ?now])"
    by (auto simp: example_contract_def)
  then have 2: "PUT_contract example_env ''contract_1'' ?now ?req [example_contract Deleted]
     = (ok NoData, [(example_contract Deleted)\<lparr>clientName := Some (JStr ''Cara and Dan''),
            updatedAt := ?now\<rparr>])"
    unfolding m by auto
  from 1 2 show ?thesis by (rule conjI)
qed

section \<open>Signing\<close>




section \<open>Soft delete\<close>

text \<open>
  C4. For a contract owned by the session's vendor, DELETE /api/contracts/[id] succeeds
  and keeps the record in the store, at its place, with status 'deleted' and updatedAt
  set to the current time; id, vendorId, clientName, eventDate, eventVenue,
  servicePackage, amount, content, signature and createdAt are unchanged. The list that
  GET /api/contracts returns afterwards does not contain the record, and in a store with
  distinct ids it contains no contract of that id.
\<close>

theorem delete_is_soft:
  "cookie req = Some ck \<Longrightarrow> session_id ck = Inr vendor \<Longrightarrow>
   getContract cid contracts = Some c \<Longrightarrow> strict_eq (vendorId c) vendor \<Longrightarrow>
     \<exists>i<length contracts. \<exists>c' contracts'.
        contracts ! i = c \<and> c' = c\<lparr>status := Deleted, updatedAt := now\<rparr>
        \<and> contracts' = contracts[i := c']
        \<and> DELETE_contract cid now req contracts = (ok NoData, contracts')
        \<and> status c' = Deleted \<and> updatedAt c' = now
        \<and> contractId c' = contractId c \<and> vendorId c' = vendorId c \<and> clientName c' = clientName c
        \<and> eventDate c' = eventDate c \<and> eventVenue c' = eventVenue c
        \<and> servicePackage c' = servicePackage c \<and> amount c' = amount c \<and> content c' = content c
        \<and> signature c' = signature c \<and> createdAt c' = createdAt c
        \<and> GET_contracts req contracts'
            = (ok (ContractList (getContractsByVendor vendor contracts')), contracts')
        \<and> c' \<notin> set (getContractsByVendor vendor contracts')
        \<and> (distinct (map contractId contracts) \<longrightarrow>
             (\<forall>x\<in>set (getContractsByVendor vendor contracts'). contractId x \<noteq> cid))"
proof -
  assume s: "cookie req = Some ck" "session_id ck = Inr vendor"
    and g: "getContract cid contracts = Some c" and o: "strict_eq (vendorId c) vendor"
  from updateContract_found [OF g, of "no_updates\<lparr>p_status := Some Deleted\<rparr>" now]
  obtain i where i: "i < length contracts" "contracts ! i = c"
    and u: "updateContract cid (no_updates\<lparr>p_status := Some Deleted\<rparr>) now contracts
              = Inr (contracts[i := c\<lparr>status := Deleted, updatedAt := now\<rparr>])"
    by (auto simp: merge_delete)
  let ?c' = "c\<lparr>status := Deleted, updatedAt := now\<rparr>"
  let ?cs' = "contracts[i := ?c']"
  have del: "DELETE_contract cid now req contracts = (ok NoData, ?cs')"
    using s g o u by (simp add: DELETE_contract_def deleteContract_def)
  have lst: "GET_contracts req ?cs' = (ok (ContractList (getContractsByVendor vendor ?cs')), ?cs')"
    using s by (simp add: GET_contracts_def)
  have notin: "?c' \<notin> set (getContractsByVendor vendor ?cs')"
    by (simp add: getContractsByVendor_def)
  have ids: "\<forall>x\<in>set (getContractsByVendor vendor ?cs'). contractId x \<noteq> cid"
    if d: "distinct (map contractId contracts)"
  proof
    fix x assume x: "x \<in> set (getContractsByVendor vendor ?cs')"
    then have xin: "x \<in> set ?cs'" and nd: "status x \<noteq> Deleted"
      by (simp_all add: getContractsByVendor_def)
    show "contractId x \<noteq> cid"
    proof
      assume "contractId x = cid"
      with getContract_id [OF g] i have "contractId x = contractId (contracts ! i)" by simp
      from other_ids_after_update [OF d i(1) xin this] nd show False by simp
    qed
  qed
  from i del lst notin ids show ?thesis
    by (intro exI [of _ i] exI [of _ ?c'] exI [of _ ?cs'] conjI impI) simp_all
qed


theorem delete_is_soft_witness:
  "DELETE_contract ''contract_1'' ''2024-03-01T12:00:00.000Z''
      \<lparr>cookie = Some alice_cookie, body = None\<rparr> [example_contract Draft]
     = (ok NoData, [(example_contract Draft)\<lparr>status := Deleted, updatedAt := ''2024-03-01T12:00:00.000Z''\<rparr>])
   \<and> GET_contracts \<lparr>cookie = Some alice_cookie, body = None\<rparr>
        [(example_contract Draft)\<lparr>status := Deleted, updatedAt := ''2024-03-01T12:00:00.000Z''\<rparr>]
     = (ok (ContractList []),
        [(example_contract Draft)\<lparr>status := Deleted, updatedAt := ''2024-03-01T12:00:00.000Z''\<rparr>])"
proof -
  let ?req = "\<lparr>cookie = Some alice_cookie, body = None\<rparr>"
  let ?now = "''2024-03-01T12:00:00.000Z''"
  have c: "cookie ?req = Some alice_cookie" by simp
  have o: "strict_eq (vendorId (example_contract Draft)) (Some (JStr ''user_1''))"
    by (simp add: example_contract_def)
  from delete_is_soft [OF c session_alice getContract_example o, of ?now]
  obtain i c' contracts' where i: "i < length [example_contract Draft]"
    and c': "c' = (example_contract Draft)\<lparr>status := Deleted, updatedAt := ?now\<rparr>"
    and cs': "contracts' = [example_contract Draft][i := c']"
    and d: "DELETE_contract ''contract_1'' ?now ?req [example_contract Draft] = (ok NoData, contracts')"
    and l: "GET_contracts ?req contracts'
              = (ok (ContractList (getContractsByVendor (Some (JStr ''user_1'')) contracts')), contracts')"
    by blast
  from i have "i = 0" by simp
  with cs' c' have cs: "contracts' = [(example_contract Draft)\<lparr>status := Deleted, updatedAt := ?now\<rparr>]"
    by simp
  have "getContractsByVendor (Some (JStr ''user_1'')) contracts' = []"
    unfolding cs by (simp add: getContractsByVendor_def)
  with d l cs show ?thesis by simp
qed

section \<open>Requests without a session\<close>

text \<open>
  C5. Every operation of the contract API (list, create, get, update, delete, sign)
  answers a request that carries no 'session' cookie with status 401 and the error
  'Not authenticated', and leaves the stored contracts as they were. The middleware gives
  the same answer on the operation's path, so the response does not depend on whether
  the request reaches the handler.
\<close>

theorem unauthenticated_401:
  "cookie req = None \<Longrightarrow>
     handle env call req contracts = (failure 401 ''Not authenticated'', contracts)
     \<and> middleware (pathname call) (cookie req) = Respond (failure 401 ''Not authenticated'')"
  by (cases call)
     (simp_all add: GET_contracts_def POST_contracts_def GET_contract_def PUT_contract_def
        DELETE_contract_def POST_sign_def middleware_def)

theorem unauthenticated_401_witness:
  "handle example_env (DeleteContract ''contract_1'' ''2024-02-01T00:00:00.000Z'')
      \<lparr>cookie = None, body = None\<rparr> [example_contract Draft]
     = (failure 401 ''Not authenticated'', [example_contract Draft])
   \<and> middleware ''/api/contracts/contract_1'' None = Respond (failure 401 ''Not authenticated'')"
  using unauthenticated_401 [of "\<lparr>cookie = None, body = None\<rparr>" example_env
      "DeleteContract ''contract_1'' ''2024-02-01T00:00:00.000Z''" "[example_contract Draft]"]
  by simp

section \<open>Properties of the signature validator\<close>

lemma trim_nonempty_iff: "trim s \<noteq> [] \<longleftrightarrow> (\<exists>c\<in>set s. \<not> isWhiteSpace c)"
proof -
  have "dropWhile isWhiteSpace (rev (dropWhile isWhiteSpace s)) \<noteq> []
          \<longleftrightarrow> (\<exists>c\<in>set (dropWhile isWhiteSpace s). \<not> isWhiteSpace c)"
    by (simp add: dropWhile_eq_Nil_conv)
  also have "\<dots> \<longleftrightarrow> (\<exists>c\<in>set s. \<not> isWhiteSpace c)"
  proof
    assume "\<exists>c\<in>set (dropWhile isWhiteSpace s). \<not> isWhiteSpace c"
    then show "\<exists>c\<in>set s. \<not> isWhiteSpace c"
      using set_dropWhileD by fastforce
  next
    assume "\<exists>c\<in>set s. \<not> isWhiteSpace c"
    then have "dropWhile isWhiteSpace s \<noteq> []"
      by (simp add: dropWhile_eq_Nil_conv)
    then have "hd (dropWhile isWhiteSpace s) \<in> set (dropWhile isWhiteSpace s)"
      and "\<not> isWhiteSpace (hd (dropWhile isWhiteSpace s))"
      by (simp_all add: hd_dropWhile)
    then show "\<exists>c\<in>set (dropWhile isWhiteSpace s). \<not> isWhiteSpace c"
      by blast
  qed
  finally show ?thesis
    by (simp add: trim_def)
qed

text \<open>
  C6. \<^verbatim>\<open>validateSignature(s)\<close> returns true exactly when \<open>s\<close> is an object whose type,
  data and timestamp are non-empty, whose type is 'drawn' or 'typed', and whose data is a
  string that starts with 'data:image/' for a drawn signature and contains a character
  that is not white space for a typed one.
\<close>

theorem validateSignature_true_iff:
  "validateSignature sg = Inr True \<longleftrightarrow>
     (\<exists>s d. sg = Some s \<and> sig_type s \<noteq> [] \<and> sig_data s = JStr d \<and> d \<noteq> [] \<and> timestamp s \<noteq> []
        \<and> (sig_type s = ''drawn'' \<or> sig_type s = ''typed'')
        \<and> (sig_type s = ''drawn'' \<longrightarrow> prefix ''data:image/'' d)
        \<and> (sig_type s = ''typed'' \<longrightarrow> (\<exists>c\<in>set d. \<not> isWhiteSpace c)))"
proof (cases sg)
  case None
  then show ?thesis by (simp add: validateSignature_def)
next
  case (Some s)
  show ?thesis
  proof (cases "sig_data s")
    case (JStr d)
    with Some show ?thesis
      by (auto simp: validateSignature_def trim_nonempty_iff)
  qed (use Some in \<open>auto simp: validateSignature_def\<close>)
qed

theorem validateSignature_true_iff_witness:
  "validateSignature (Some \<lparr>sig_type = ''typed'', sig_data = JStr ''Ann Lee'',
      timestamp = ''2024-05-01T10:00:00.000Z''\<rparr>) = Inr True
   \<and> validateSignature (Some \<lparr>sig_type = ''drawn'', sig_data = JStr ''data:image/png;base64,iVBOR'',
      timestamp = ''2024-05-01T10:00:00.000Z''\<rparr>) = Inr True
   \<and> validateSignature (Some \<lparr>sig_type = ''typed'', sig_data = JStr ''  '',
      timestamp = ''2024-05-01T10:00:00.000Z''\<rparr>) \<noteq> Inr True"
  unfolding validateSignature_true_iff
  by (simp add: isWhiteSpace_def)

section \<open>AI assistance never fails a valid request\<close>



section \<open>Vendor boundaries\<close>

text \<open>
  C8. For a session whose cookie parses and has the vendor id \<open>vendor\<close>, the list route
  returns only stored contracts whose vendorId is strictly equal to that id, and the
  routes that address one contract (get, update, delete, sign) answer 403 'Access denied'
  and leave the store unchanged whenever the contract found under the id belongs to
  another vendor.
\<close>

theorem vendor_isolation:
  "cookie req = Some ck \<Longrightarrow> session_id ck = Inr vendor \<Longrightarrow>
     handle env ListContracts req contracts
       = (ok (ContractList (getContractsByVendor vendor contracts)), contracts)
     \<and> (\<forall>c\<in>set (getContractsByVendor vendor contracts).
            c \<in> set contracts \<and> strict_eq (vendorId c) vendor)
     \<and> (\<forall>call cid c. target call = Some cid \<and> getContract cid contracts = Some c
            \<and> \<not> strict_eq (vendorId c) vendor
          \<longrightarrow> handle env call req contracts = (failure 403 ''Access denied'', contracts))"
proof (intro conjI allI impI)
  fix call cid c
  assume s: "cookie req = Some ck" "session_id ck = Inr vendor"
    and h: "target call = Some cid \<and> getContract cid contracts = Some c
            \<and> \<not> strict_eq (vendorId c) vendor"
  then show "handle env call req contracts = (failure 403 ''Access denied'', contracts)"
    by (cases call)
       (simp_all add: target_def GET_contract_def PUT_contract_def DELETE_contract_def POST_sign_def)
qed (simp_all add: GET_contracts_def getContractsByVendor_def)

theorem vendor_isolation_witness:
  "handle example_env ListContracts \<lparr>cookie = Some bob_cookie, body = None\<rparr> [example_contract Draft]
     = (ok (ContractList []), [example_contract Draft])
   \<and> handle example_env (SignContract ''contract_1'' ''2024-02-01T00:00:00.000Z'' ''2024-02-01T00:00:00.001Z'')
        \<lparr>cookie = Some bob_cookie, body = None\<rparr> [example_contract Draft]
     = (failure 403 ''Access denied'', [example_contract Draft])"
proof -
  let ?req = "\<lparr>cookie = Some bob_cookie, body = None\<rparr>"
  let ?sign = "SignContract ''contract_1'' ''2024-02-01T00:00:00.000Z'' ''2024-02-01T00:00:00.001Z''"
  have c: "cookie ?req = Some bob_cookie" by simp
  have l: "getContractsByVendor (Some (JStr ''user_2'')) [example_contract Draft] = []"
    by (simp add: getContractsByVendor_def example_contract_def)
  have d: "target ?sign = Some ''contract_1''
      \<and> getContract ''contract_1'' [example_contract Draft] = Some (example_contract Draft)
      \<and> \<not> strict_eq (vendorId (example_contract Draft)) (Some (JStr ''user_2''))"
    by (simp add: target_def getContract_example) (simp add: example_contract_def)
  note vi = vendor_isolation [OF c session_bob, of example_env "[example_contract Draft]"]
  from vi have "handle example_env ListContracts ?req [example_contract Draft]
     = (ok (ContractList []), [example_contract Draft])"
    unfolding l by (rule conjunct1)
  moreover from vi d have "handle example_env ?sign ?req [example_contract Draft]
     = (failure 403 ''Access denied'', [example_contract Draft])"
    by blast
  ultimately show ?thesis by (rule conjI)
qed

section \<open>The session holds no password\<close>

text \<open>
  C9. After a successful login the session cookie and the user object of the response
  are the same JSON object, whose keys are exactly id, email, vendorType and name with
  the values of the user that matched the credentials; it has no password entry, and
  GET /api/auth/me on that cookie returns the same object. A login that fails returns
  no data and sets no cookie, and the logout response carries a message only.
\<close>

theorem login_session_fields:
  "POST_login credentials users = (resp, ck) \<Longrightarrow>
     (success resp \<longrightarrow>
        (\<exists>c. credentials = Some c \<and>
          (\<exists>user\<in>set users.
             Some (user_email user) = email c \<and> Some (user_password user) = password c
             \<and> resp = ok (UserData (sessionUser user))
             \<and> ck = Some (Parsed (sessionUser user))
             \<and> keys (sessionUser user) = [''id'', ''email'', ''vendorType'', ''name'']
             \<and> prop_of (sessionUser user) ''id'' = Some (JStr (user_id user))
             \<and> prop_of (sessionUser user) ''email'' = Some (JStr (user_email user))
             \<and> prop_of (sessionUser user) ''vendorType'' = Some (JStr (user_vendorType user))
             \<and> prop_of (sessionUser user) ''name'' = Some (JStr (user_name user))
             \<and> prop_of (sessionUser user) ''password'' = None
             \<and> GET_me ck = ok (UserData (sessionUser user)))))
     \<and> (\<not> success resp \<longrightarrow> data resp = NoData \<and> ck = None)
     \<and> POST_logout = (ok (Message ''Logged out successfully''), None)"
proof (cases credentials)
  case None
  assume "POST_login credentials users = (resp, ck)"
  with None show ?thesis by (auto simp: POST_login_def failure_def POST_logout_def)
next
  case (Some c)
  assume p: "POST_login credentials users = (resp, ck)"
  show ?thesis
  proof (cases "find (\<lambda>u. Some (user_email u) = email c \<and> Some (user_password u) = password c) users")
    case None
    with p Some show ?thesis
      by (auto simp: POST_login_def failure_def POST_logout_def split: if_splits)
  next
    case (Some user)
    then have u: "user \<in> set users" "Some (user_email user) = email c" "Some (user_password user) = password c"
      by (auto simp: find_Some_iff)
    show ?thesis
    proof (cases "blank (email c) \<or> blank (password c)")
      case True
      with p \<open>credentials = Some c\<close> show ?thesis
        by (auto simp: POST_login_def failure_def POST_logout_def)
    next
      case False
      with p \<open>credentials = Some c\<close> Some have r: "resp = ok (UserData (sessionUser user))"
        "ck = Some (Parsed (sessionUser user))"
        by (auto simp: POST_login_def)
      have "keys (sessionUser user) = [''id'', ''email'', ''vendorType'', ''name'']"
        "prop_of (sessionUser user) ''id'' = Some (JStr (user_id user))"
        "prop_of (sessionUser user) ''email'' = Some (JStr (user_email user))"
        "prop_of (sessionUser user) ''vendorType'' = Some (JStr (user_vendorType user))"
        "prop_of (sessionUser user) ''name'' = Some (JStr (user_name user))"
        "prop_of (sessionUser user) ''password'' = None"
        by (simp_all add: sessionUser_def)
      moreover have "GET_me ck = ok (UserData (sessionUser user))"
        using r by (simp add: GET_me_def)
      ultimately show ?thesis
        using u r \<open>credentials = Some c\<close> by (auto simp: ok_def POST_logout_def)
    qed
  qed
qed

theorem login_session_fields_witness:
  "POST_login (Some \<lparr>email = Some ''alice@example.com'', password = Some ''hunter2''\<rparr>) [alice]
     = (ok (UserData (JObj [(''id'', JStr ''user_1''), (''email'', JStr ''alice@example.com''),
                            (''vendorType'', JStr ''photographer''), (''name'', JStr ''Alice Photo'')])),
        Some alice_cookie)
   \<and> keys (sessionUser alice) = [''id'', ''email'', ''vendorType'', ''name'']"
proof -
  let ?c = "\<lparr>email = Some ''alice@example.com'', password = Some ''hunter2''\<rparr>"
  obtain resp ck where p: "POST_login (Some ?c) [alice] = (resp, ck)"
    by (cases "POST_login (Some ?c) [alice]")
  have s: "success resp"
    using p by (auto simp: POST_login_def blank_def alice_def ok_def)
  from login_session_fields [OF p] s
  have "resp = ok (UserData (sessionUser alice))" "ck = Some (Parsed (sessionUser alice))"
    "keys (sessionUser alice) = [''id'', ''email'', ''vendorType'', ''name'']"
    by auto
  with p show ?thesis
    by (simp add: alice_cookie_def) (simp add: sessionUser_def alice_def)
qed

section \<open>Deleted contracts stay readable\<close>

text \<open>
  C10. A contract with status 'deleted' is still returned, with that status, to its owner
  by GET /api/contracts/[id], whose lookup does not look at the status, while the list of
  GET /api/contracts does not contain it. The contract is the one its id finds, which is
  every contract of a store with distinct ids (lemma \<open>getContract_distinct\<close>).
\<close>

theorem deleted_still_retrievable:
  "cookie req = Some ck \<Longrightarrow> session_id ck = Inr vendor \<Longrightarrow>
   getContract cid contracts = Some c \<Longrightarrow> strict_eq (vendorId c) vendor \<Longrightarrow> status c = Deleted \<Longrightarrow>
     GET_contract cid req contracts = (ok (OneContract c), contracts)
     \<and> GET_contracts req contracts
         = (ok (ContractList (getContractsByVendor vendor contracts)), contracts)
     \<and> c \<notin> set (getContractsByVendor vendor contracts)"
  by (simp add: GET_contract_def GET_contracts_def getContractsByVendor_def)

theorem deleted_still_retrievable_witness:
  "GET_contract ''contract_1'' \<lparr>cookie = Some alice_cookie, body = None\<rparr> [example_contract Deleted]
     = (ok (OneContract (example_contract Deleted)), [example_contract Deleted])
   \<and> GET_contracts \<lparr>cookie = Some alice_cookie, body = None\<rparr> [example_contract Deleted]
     = (ok (ContractList []), [example_contract Deleted])"
proof -
  let ?req = "\<lparr>cookie = Some alice_cookie, body = None\<rparr>"
  have c: "cookie ?req = Some alice_cookie" by simp
  have o: "strict_eq (vendorId (example_contract Deleted)) (Some (JStr ''user_1''))"
    and d: "status (example_contract Deleted) = Deleted"
    by (simp_all add: example_contract_def)
  have l: "getContractsByVendor (Some (JStr ''user_1'')) [example_contract Deleted] = []"
    by (simp add: getContractsByVendor_def example_contract_def)
  from deleted_still_retrievable [OF c session_alice getContract_example o d] l
  show ?thesis by simp
qed

end
